theory Spec2Isabelle
  imports Main "HOL-Library.Word"
begin

unbundle bit_operations_syntax

section \<open>Machine types and byte order\<close>

type_synonym u8 = "8 word"
type_synonym u16 = "16 word"
type_synonym u32 = "32 word"

text \<open>
  The result of \<^verbatim>\<open>ntohs\<close> and \<^verbatim>\<open>htons\<close> depends on the byte order of the host the
  library is compiled for, so the host's byte order is a parameter of the model.
\<close>

datatype byte_order = LittleEndian | BigEndian

definition bswap16 :: "u16 \<Rightarrow> u16" where
  "bswap16 v = push_bit 8 (v AND 0xff) OR drop_bit 8 v"

definition ntohs :: "byte_order \<Rightarrow> u16 \<Rightarrow> u16" where
  "ntohs bo v = (case bo of LittleEndian \<Rightarrow> bswap16 v | BigEndian \<Rightarrow> v)"

definition htons :: "byte_order \<Rightarrow> u16 \<Rightarrow> u16" where
  "htons bo v = (case bo of LittleEndian \<Rightarrow> bswap16 v | BigEndian \<Rightarrow> v)"

section \<open>Classic BPF: the instruction encoding of \<^verbatim>\<open>linux/filter.h\<close>\<close>

text \<open>
  \<^verbatim>\<open>struct sock_filter { __u16 code; __u8 jt; __u8 jf; __u32 k; }\<close>. The field names carry
  a prefix because a record field is a constant and \<open>k\<close> is wanted as a variable.
\<close>

record sock_filter =
  f_code :: u16
  f_jt :: u8
  f_jf :: u8
  f_k :: u32

definition BPF_STMT :: "u16 \<Rightarrow> u32 \<Rightarrow> sock_filter" where
  "BPF_STMT c k = \<lparr>f_code = c, f_jt = 0, f_jf = 0, f_k = k\<rparr>"

definition BPF_JUMP :: "u16 \<Rightarrow> u32 \<Rightarrow> u8 \<Rightarrow> u8 \<Rightarrow> sock_filter" where
  "BPF_JUMP c k jt jf = \<lparr>f_code = c, f_jt = jt, f_jf = jf, f_k = k\<rparr>"

named_theorems bpf_const \<open>numeric values of the opcode constants\<close>

text \<open>Instruction classes.\<close>

definition BPF_LD :: u16 where [bpf_const]: "BPF_LD = 0x00"
definition BPF_LDX :: u16 where [bpf_const]: "BPF_LDX = 0x01"
definition BPF_ST :: u16 where [bpf_const]: "BPF_ST = 0x02"
definition BPF_STX :: u16 where [bpf_const]: "BPF_STX = 0x03"
definition BPF_ALU :: u16 where [bpf_const]: "BPF_ALU = 0x04"
definition BPF_JMP :: u16 where [bpf_const]: "BPF_JMP = 0x05"
definition BPF_RET :: u16 where [bpf_const]: "BPF_RET = 0x06"
definition BPF_MISC :: u16 where [bpf_const]: "BPF_MISC = 0x07"

text \<open>Load sizes and addressing modes.\<close>

definition BPF_W :: u16 where [bpf_const]: "BPF_W = 0x00"
definition BPF_H :: u16 where [bpf_const]: "BPF_H = 0x08"
definition BPF_B :: u16 where [bpf_const]: "BPF_B = 0x10"

definition BPF_IMM :: u16 where [bpf_const]: "BPF_IMM = 0x00"
definition BPF_ABS :: u16 where [bpf_const]: "BPF_ABS = 0x20"
definition BPF_IND :: u16 where [bpf_const]: "BPF_IND = 0x40"
definition BPF_MEM :: u16 where [bpf_const]: "BPF_MEM = 0x60"
definition BPF_LEN :: u16 where [bpf_const]: "BPF_LEN = 0x80"
definition BPF_MSH :: u16 where [bpf_const]: "BPF_MSH = 0xa0"

text \<open>ALU and jump operations, operand sources, the return value and the misc operations.\<close>

definition BPF_ADD :: u16 where [bpf_const]: "BPF_ADD = 0x00"
definition BPF_SUB :: u16 where [bpf_const]: "BPF_SUB = 0x10"
definition BPF_MUL :: u16 where [bpf_const]: "BPF_MUL = 0x20"
definition BPF_OR :: u16 where [bpf_const]: "BPF_OR = 0x40"
definition BPF_AND :: u16 where [bpf_const]: "BPF_AND = 0x50"
definition BPF_XOR :: u16 where [bpf_const]: "BPF_XOR = 0xa0"

definition BPF_JA :: u16 where [bpf_const]: "BPF_JA = 0x00"
definition BPF_JEQ :: u16 where [bpf_const]: "BPF_JEQ = 0x10"
definition BPF_JGT :: u16 where [bpf_const]: "BPF_JGT = 0x20"
definition BPF_JGE :: u16 where [bpf_const]: "BPF_JGE = 0x30"
definition BPF_JSET :: u16 where [bpf_const]: "BPF_JSET = 0x40"

definition BPF_K :: u16 where [bpf_const]: "BPF_K = 0x00"
definition BPF_X :: u16 where [bpf_const]: "BPF_X = 0x08"
definition BPF_A :: u16 where [bpf_const]: "BPF_A = 0x10"

definition BPF_TAX :: u16 where [bpf_const]: "BPF_TAX = 0x00"
definition BPF_TXA :: u16 where [bpf_const]: "BPF_TXA = 0x80"

text \<open>The field extractors \<^verbatim>\<open>BPF_CLASS\<close>, \<^verbatim>\<open>BPF_SIZE\<close>, \<^verbatim>\<open>BPF_MODE\<close>, \<^verbatim>\<open>BPF_OP\<close>,
  \<^verbatim>\<open>BPF_SRC\<close>, \<^verbatim>\<open>BPF_RVAL\<close> and \<^verbatim>\<open>BPF_MISCOP\<close>.\<close>

definition BPF_CLASS :: "u16 \<Rightarrow> u16" where "BPF_CLASS c = c AND 0x07"
definition BPF_SIZE :: "u16 \<Rightarrow> u16" where "BPF_SIZE c = c AND 0x18"
definition BPF_MODE :: "u16 \<Rightarrow> u16" where "BPF_MODE c = c AND 0xe0"
definition BPF_OP :: "u16 \<Rightarrow> u16" where "BPF_OP c = c AND 0xf0"
definition BPF_SRC :: "u16 \<Rightarrow> u16" where "BPF_SRC c = c AND 0x08"
definition BPF_RVAL :: "u16 \<Rightarrow> u16" where "BPF_RVAL c = c AND 0x18"
definition BPF_MISCOP :: "u16 \<Rightarrow> u16" where "BPF_MISCOP c = c AND 0xf8"

section \<open>Classic BPF: decoded instructions and their execution\<close>

text \<open>
  The kernel decodes a program when it is attached and refuses one that holds an opcode it
  does not know. The decoder below covers the loads from the packet, the immediate and
  length loads, the ALU operations without division and shifts, the jumps, the returns
  and the register moves; an instruction outside this set (scratch memory among them)
  decodes to \<open>None\<close>.
\<close>

datatype bpf_size = Size_W | Size_H | Size_B

datatype bpf_src = Src_K | Src_X

datatype bpf_alu = Alu_add | Alu_sub | Alu_mul | Alu_or | Alu_and | Alu_xor

datatype bpf_cond = Cond_eq | Cond_gt | Cond_ge | Cond_set

datatype bpf_insn =
    Ld_imm u32
  | Ld_abs bpf_size u32
  | Ld_ind bpf_size u32
  | Ld_len
  | Ldx_imm u32
  | Ldx_len
  | Ldx_msh u32
  | Alu bpf_alu bpf_src u32
  | Ja u32
  | Jmp bpf_cond bpf_src u32 u8 u8
  | Ret_k u32
  | Ret_a
  | Tax
  | Txa

definition decode_size :: "u16 \<Rightarrow> bpf_size option" where
  "decode_size c =
     (if BPF_SIZE c = BPF_W then Some Size_W
      else if BPF_SIZE c = BPF_H then Some Size_H
      else if BPF_SIZE c = BPF_B then Some Size_B
      else None)"

definition decode_src :: "u16 \<Rightarrow> bpf_src" where
  "decode_src c = (if BPF_SRC c = BPF_X then Src_X else Src_K)"

definition decode_alu :: "u16 \<Rightarrow> bpf_alu option" where
  "decode_alu c =
     (if BPF_OP c = BPF_ADD then Some Alu_add
      else if BPF_OP c = BPF_SUB then Some Alu_sub
      else if BPF_OP c = BPF_MUL then Some Alu_mul
      else if BPF_OP c = BPF_OR then Some Alu_or
      else if BPF_OP c = BPF_AND then Some Alu_and
      else if BPF_OP c = BPF_XOR then Some Alu_xor
      else None)"

definition decode_cond :: "u16 \<Rightarrow> bpf_cond option" where
  "decode_cond c =
     (if BPF_OP c = BPF_JEQ then Some Cond_eq
      else if BPF_OP c = BPF_JGT then Some Cond_gt
      else if BPF_OP c = BPF_JGE then Some Cond_ge
      else if BPF_OP c = BPF_JSET then Some Cond_set
      else None)"

definition decode :: "sock_filter \<Rightarrow> bpf_insn option" where
  "decode f =
     (let c = f_code f; k = f_k f in
      if 0xff < c then None
      else if BPF_CLASS c = BPF_LD then
        (if BPF_MODE c = BPF_IMM then (if BPF_SIZE c = BPF_W then Some (Ld_imm k) else None)
         else if BPF_MODE c = BPF_ABS then map_option (\<lambda>s. Ld_abs s k) (decode_size c)
         else if BPF_MODE c = BPF_IND then map_option (\<lambda>s. Ld_ind s k) (decode_size c)
         else if BPF_MODE c = BPF_LEN then (if BPF_SIZE c = BPF_W then Some Ld_len else None)
         else None)
      else if BPF_CLASS c = BPF_LDX then
        (if BPF_MODE c = BPF_IMM then (if BPF_SIZE c = BPF_W then Some (Ldx_imm k) else None)
         else if BPF_MODE c = BPF_LEN then (if BPF_SIZE c = BPF_W then Some Ldx_len else None)
         else if BPF_MODE c = BPF_MSH then (if BPF_SIZE c = BPF_B then Some (Ldx_msh k) else None)
         else None)
      else if BPF_CLASS c = BPF_ALU then
        map_option (\<lambda>op. Alu op (decode_src c) k) (decode_alu c)
      else if BPF_CLASS c = BPF_JMP then
        (if BPF_OP c = BPF_JA then (if BPF_SRC c = BPF_K then Some (Ja k) else None)
         else map_option (\<lambda>cond. Jmp cond (decode_src c) k (f_jt f) (f_jf f)) (decode_cond c))
      else if BPF_CLASS c = BPF_RET then
        (if BPF_RVAL c = BPF_K then Some (Ret_k k)
         else if BPF_RVAL c = BPF_A then Some Ret_a
         else None)
      else if BPF_CLASS c = BPF_MISC then
        (if BPF_MISCOP c = BPF_TAX then Some Tax
         else if BPF_MISCOP c = BPF_TXA then Some Txa
         else None)
      else None)"

text \<open>\<open>those\<close> of the decoded instructions: the whole program is refused when one
  instruction is.\<close>

definition decode_prog :: "sock_filter list \<Rightarrow> bpf_insn list option" where
  "decode_prog prog = those (map decode prog)"

subsection \<open>Loads from the packet\<close>

text \<open>
  A packet is the list of its bytes. On an \<^verbatim>\<open>AF_PACKET\<close>/\<^verbatim>\<open>SOCK_DGRAM\<close> socket the link
  header is stripped, so byte 0 is the first byte of the IP header. A multi-byte load reads
  the bytes in network order (most significant first). A load that does not fit into the
  packet yields \<open>None\<close>.
\<close>

definition size_bytes :: "bpf_size \<Rightarrow> nat" where
  "size_bytes s = (case s of Size_W \<Rightarrow> 4 | Size_H \<Rightarrow> 2 | Size_B \<Rightarrow> 1)"

definition be_value :: "u8 list \<Rightarrow> u32" where
  "be_value bs = foldl (\<lambda>acc b. push_bit 8 acc OR ucast b) 0 bs"

definition bpf_load :: "bpf_size \<Rightarrow> u8 list \<Rightarrow> nat \<Rightarrow> u32 option" where
  "bpf_load s pkt off =
     (if off + size_bytes s \<le> length pkt
      then Some (be_value (take (size_bytes s) (drop off pkt)))
      else None)"

subsection \<open>One instruction\<close>

text \<open>
  The outcome of one instruction: continue \<open>skip\<close> instructions further on with new
  registers, return a value, or leave the model. A load beyond the end of the packet ends
  the run with the value 0, as the kernel does. An offset of \<open>2^31\<close> or more is a negative
  offset to the kernel, which reads ancillary data or other headers there; the model does
  not cover these and answers \<open>Unmodelled\<close>.
\<close>

datatype bpf_outcome = Continue nat u32 u32 | Return u32 | Unmodelled

definition load_at :: "bpf_size \<Rightarrow> u8 list \<Rightarrow> u32 \<Rightarrow> (u32 \<Rightarrow> bpf_outcome) \<Rightarrow> bpf_outcome" where
  "load_at s pkt off cont =
     (if 2 ^ 31 \<le> unat off then Unmodelled
      else case bpf_load s pkt (unat off) of
             None \<Rightarrow> Return 0
           | Some v \<Rightarrow> cont v)"

definition alu_op :: "bpf_alu \<Rightarrow> u32 \<Rightarrow> u32 \<Rightarrow> u32" where
  "alu_op op a b =
     (case op of
        Alu_add \<Rightarrow> a + b
      | Alu_sub \<Rightarrow> a - b
      | Alu_mul \<Rightarrow> a * b
      | Alu_or \<Rightarrow> a OR b
      | Alu_and \<Rightarrow> a AND b
      | Alu_xor \<Rightarrow> a XOR b)"

definition cond_holds :: "bpf_cond \<Rightarrow> u32 \<Rightarrow> u32 \<Rightarrow> bool" where
  "cond_holds c a b =
     (case c of
        Cond_eq \<Rightarrow> a = b
      | Cond_gt \<Rightarrow> b < a
      | Cond_ge \<Rightarrow> b \<le> a
      | Cond_set \<Rightarrow> a AND b \<noteq> 0)"

definition operand :: "bpf_src \<Rightarrow> u32 \<Rightarrow> u32 \<Rightarrow> u32" where
  "operand src k x = (case src of Src_K \<Rightarrow> k | Src_X \<Rightarrow> x)"

fun bpf_step :: "u8 list \<Rightarrow> bpf_insn \<Rightarrow> u32 \<Rightarrow> u32 \<Rightarrow> bpf_outcome" where
  "bpf_step pkt (Ld_imm k) a x = Continue 0 k x"
| "bpf_step pkt (Ld_abs s k) a x = load_at s pkt k (\<lambda>v. Continue 0 v x)"
| "bpf_step pkt (Ld_ind s k) a x = load_at s pkt (x + k) (\<lambda>v. Continue 0 v x)"
| "bpf_step pkt Ld_len a x = Continue 0 (of_nat (length pkt)) x"
| "bpf_step pkt (Ldx_imm k) a x = Continue 0 a k"
| "bpf_step pkt Ldx_len a x = Continue 0 a (of_nat (length pkt))"
| "bpf_step pkt (Ldx_msh k) a x =
     load_at Size_B pkt k (\<lambda>v. Continue 0 a (push_bit 2 (v AND 0x0f)))"
| "bpf_step pkt (Alu op src k) a x = Continue 0 (alu_op op a (operand src k x)) x"
| "bpf_step pkt (Ja k) a x = Continue (unat k) a x"
| "bpf_step pkt (Jmp c src k jt jf) a x =
     Continue (if cond_holds c a (operand src k x) then unat jt else unat jf) a x"
| "bpf_step pkt (Ret_k k) a x = Return k"
| "bpf_step pkt Ret_a a x = Return a"
| "bpf_step pkt Tax a x = Continue 0 a a"
| "bpf_step pkt Txa a x = Continue 0 x x"

subsection \<open>The run of a program\<close>

text \<open>
  Jump offsets are unsigned and counted from the next instruction, so the program counter
  grows with every step and the run is a total function. It answers \<open>None\<close> when the
  program counter leaves the program or an instruction is outside the model.
\<close>

function bpf_run :: "bpf_insn list \<Rightarrow> u8 list \<Rightarrow> nat \<Rightarrow> u32 \<Rightarrow> u32 \<Rightarrow> u32 option" where
  "bpf_run prog pkt pc a x =
     (if pc < length prog then
        (case bpf_step pkt (prog ! pc) a x of
           Return v \<Rightarrow> Some v
         | Unmodelled \<Rightarrow> None
         | Continue skip a' x' \<Rightarrow> bpf_run prog pkt (pc + 1 + skip) a' x')
      else None)"
  by pat_completeness auto
termination
  by (relation "measure (\<lambda>(prog, pkt, pc, a, x). length prog - pc)") auto

declare bpf_run.simps [simp del]

text \<open>Attaching decodes the program; each packet is then run from instruction 0 with both
  registers cleared.\<close>

definition bpf_filter :: "sock_filter list \<Rightarrow> u8 list \<Rightarrow> u32 option" where
  "bpf_filter prog pkt =
     (case decode_prog prog of
        None \<Rightarrow> None
      | Some insns \<Rightarrow> bpf_run insns pkt 0 0 0)"

section \<open>Constants used by the filter\<close>

text \<open>From the system headers: the layout of \<^verbatim>\<open>struct iphdr\<close> and \<^verbatim>\<open>struct udphdr\<close>, the
  protocol number of UDP and the fragment bits of the IP header.\<close>

definition offsetof_iphdr_frag_off :: u32 where "offsetof_iphdr_frag_off = 6"
definition offsetof_iphdr_protocol :: u32 where "offsetof_iphdr_protocol = 9"
definition IPPROTO_UDP :: u32 where "IPPROTO_UDP = 17"
definition IP_MF :: u16 where "IP_MF = 0x2000"
definition IP_OFFMASK :: u16 where "IP_OFFMASK = 0x1fff"
definition sizeof_udphdr :: u32 where "sizeof_udphdr = 8"
definition offsetof_udphdr_dest :: u32 where "offsetof_udphdr_dest = 2"

text \<open>
  Modelled from the spec: the declarations of \<^verbatim>\<open>n-dhcp4-private.h\<close>, which is not among the
  sources. The spec gives the header as op, htype, hlen, hops (one byte each), then the
  32-bit xid, 236 bytes in all, followed by the 4-byte magic cookie (240 bytes with it);
  BOOTREPLY is op 2, the client port is 68 and the cookie is 0x63825363.
\<close>

definition offsetof_NDhcp4Header_op :: u32 where "offsetof_NDhcp4Header_op = 0"
definition offsetof_NDhcp4Header_xid :: u32 where "offsetof_NDhcp4Header_xid = 4"
definition offsetof_NDhcp4Message_magic :: u32 where "offsetof_NDhcp4Message_magic = 236"
definition sizeof_NDhcp4Message :: u32 where "sizeof_NDhcp4Message = 240"
definition N_DHCP4_NETWORK_CLIENT_PORT :: u32 where "N_DHCP4_NETWORK_CLIENT_PORT = 68"
definition N_DHCP4_OP_BOOTREPLY :: u32 where "N_DHCP4_OP_BOOTREPLY = 2"
definition N_DHCP4_MESSAGE_MAGIC :: u32 where "N_DHCP4_MESSAGE_MAGIC = 0x63825363"

lemmas hdr_const =
  offsetof_iphdr_frag_off_def offsetof_iphdr_protocol_def IPPROTO_UDP_def IP_MF_def
  IP_OFFMASK_def sizeof_udphdr_def offsetof_udphdr_dest_def offsetof_NDhcp4Header_op_def
  offsetof_NDhcp4Header_xid_def offsetof_NDhcp4Message_magic_def sizeof_NDhcp4Message_def
  N_DHCP4_NETWORK_CLIENT_PORT_def N_DHCP4_OP_BOOTREPLY_def N_DHCP4_MESSAGE_MAGIC_def

section \<open>The filter of \<^verbatim>\<open>n_dhcp4_network_client_packet_socket_new\<close>\<close>

text \<open>The local array \<^verbatim>\<open>filter\<close>, instruction for instruction, for a host of byte order
  \<open>bo\<close> and the transaction id \<open>xid\<close>.\<close>

definition filter_prog :: "byte_order \<Rightarrow> u32 \<Rightarrow> sock_filter list" where
  "filter_prog bo xid =
    [ BPF_STMT (BPF_LD + BPF_B + BPF_ABS) offsetof_iphdr_protocol,
      BPF_JUMP (BPF_JMP + BPF_JEQ + BPF_K) IPPROTO_UDP 1 0,
      BPF_STMT (BPF_RET + BPF_K) 0,

      BPF_STMT (BPF_LD + BPF_B + BPF_ABS) offsetof_iphdr_frag_off,
      BPF_STMT (BPF_ALU + BPF_AND + BPF_K) (ucast (ntohs bo (IP_MF OR IP_OFFMASK))),
      BPF_JUMP (BPF_JMP + BPF_JEQ + BPF_K) 0 1 0,
      BPF_STMT (BPF_RET + BPF_K) 0,

      BPF_STMT (BPF_LDX + BPF_B + BPF_MSH) 0,
      BPF_STMT (BPF_LD + BPF_W + BPF_LEN) 0,
      BPF_STMT (BPF_ALU + BPF_SUB + BPF_X) 0,
      BPF_JUMP (BPF_JMP + BPF_JGE + BPF_K) (sizeof_udphdr + sizeof_NDhcp4Message) 1 0,
      BPF_STMT (BPF_RET + BPF_K) 0,

      BPF_STMT (BPF_LD + BPF_H + BPF_IND) offsetof_udphdr_dest,
      BPF_JUMP (BPF_JMP + BPF_JEQ + BPF_K) N_DHCP4_NETWORK_CLIENT_PORT 1 0,
      BPF_STMT (BPF_RET + BPF_K) 0,

      BPF_STMT (BPF_LD + BPF_W + BPF_K) sizeof_udphdr,
      BPF_STMT (BPF_ALU + BPF_ADD + BPF_X) 0,
      BPF_STMT (BPF_MISC + BPF_TAX) 0,

      BPF_STMT (BPF_LD + BPF_B + BPF_IND) offsetof_NDhcp4Header_op,
      BPF_JUMP (BPF_JMP + BPF_JEQ + BPF_K) N_DHCP4_OP_BOOTREPLY 1 0,
      BPF_STMT (BPF_RET + BPF_K) 0,

      BPF_STMT (BPF_LD + BPF_W + BPF_IND) offsetof_NDhcp4Header_xid,
      BPF_JUMP (BPF_JMP + BPF_JEQ + BPF_K) xid 1 0,
      BPF_STMT (BPF_RET + BPF_K) 0,

      BPF_STMT (BPF_LD + BPF_W + BPF_IND) offsetof_NDhcp4Message_magic,
      BPF_JUMP (BPF_JMP + BPF_JEQ + BPF_K) N_DHCP4_MESSAGE_MAGIC 1 0,
      BPF_STMT (BPF_RET + BPF_K) 0,

      BPF_STMT (BPF_RET + BPF_K) 65535 ]"

text \<open>The operand of the fragment test, \<^verbatim>\<open>ntohs(IP_MF | IP_OFFMASK)\<close> widened to the 32-bit
  field \<^verbatim>\<open>k\<close>.\<close>

definition frag_mask :: "byte_order \<Rightarrow> u32" where
  "frag_mask bo = ucast (ntohs bo (IP_MF OR IP_OFFMASK))"

text \<open>What the kernel's decoder makes of the array.\<close>

definition insns :: "byte_order \<Rightarrow> u32 \<Rightarrow> bpf_insn list" where
  "insns bo xid =
    [ Ld_abs Size_B 9, Jmp Cond_eq Src_K 17 1 0, Ret_k 0,
      Ld_abs Size_B 6, Alu Alu_and Src_K (frag_mask bo), Jmp Cond_eq Src_K 0 1 0, Ret_k 0,
      Ldx_msh 0, Ld_len, Alu Alu_sub Src_X 0, Jmp Cond_ge Src_K 248 1 0, Ret_k 0,
      Ld_ind Size_H 2, Jmp Cond_eq Src_K 68 1 0, Ret_k 0,
      Ld_imm 8, Alu Alu_add Src_X 0, Tax,
      Ld_ind Size_B 0, Jmp Cond_eq Src_K 2 1 0, Ret_k 0,
      Ld_ind Size_W 4, Jmp Cond_eq Src_K xid 1 0, Ret_k 0,
      Ld_ind Size_W 236, Jmp Cond_eq Src_K 0x63825363 1 0, Ret_k 0,
      Ret_k 65535 ]"

text \<open>
  The static check the kernel makes before it accepts a program: the program is not empty,
  every instruction decodes, every jump lands inside the program, and the last instruction
  is a return. Jumps only go forward (the offsets are unsigned), so a checked program has
  no loop and every path through it ends at a return.
\<close>

fun jump_in_range :: "nat \<Rightarrow> nat \<Rightarrow> bpf_insn \<Rightarrow> bool" where
  "jump_in_range n pc (Ja k) = (pc + 1 + unat k < n)"
| "jump_in_range n pc (Jmp c src k jt jf) = (pc + 1 + unat jt < n \<and> pc + 1 + unat jf < n)"
| "jump_in_range n pc i = True"

fun is_return :: "bpf_insn \<Rightarrow> bool" where
  "is_return (Ret_k k) = True"
| "is_return Ret_a = True"
| "is_return i = False"

definition bpf_check :: "sock_filter list \<Rightarrow> bool" where
  "bpf_check prog =
     (case decode_prog prog of
        None \<Rightarrow> False
      | Some is \<Rightarrow>
          is \<noteq> [] \<and> is_return (last is) \<and>
          list_all (\<lambda>(pc, i). jump_in_range (length is) pc i) (zip [0..<length is] is))"

text \<open>The values the return instructions of a program can yield, when all of them return
  a constant.\<close>

fun return_value :: "bpf_insn \<Rightarrow> u32 list" where
  "return_value (Ret_k k) = [k]"
| "return_value i = []"

definition return_values :: "sock_filter list \<Rightarrow> u32 list option" where
  "return_values prog =
     (case decode_prog prog of
        None \<Rightarrow> None
      | Some is \<Rightarrow> if Ret_a \<in> set is then None else Some (concat (map return_value is)))"

section \<open>The fields of a frame that the filter looks at\<close>

text \<open>
  The header length in bytes that the IP header announces: four times the low nibble of
  byte 0.
\<close>

definition ip_hdr_len :: "u8 list \<Rightarrow> nat" where
  "ip_hdr_len pkt = (case pkt of [] \<Rightarrow> 0 | b # _ \<Rightarrow> 4 * (unat b mod 16))"

text \<open>Each field is \<open>None\<close> when the frame is too short to hold it. Multi-byte fields are
  read in network byte order.\<close>

definition ip_protocol :: "u8 list \<Rightarrow> u32 option" where
  "ip_protocol pkt = bpf_load Size_B pkt 9"

text \<open>The 16-bit field of flags and fragment offset, and its first byte alone (the three
  flags and the upper five bits of the offset).\<close>

definition ip_frag_off :: "u8 list \<Rightarrow> u32 option" where
  "ip_frag_off pkt = bpf_load Size_H pkt 6"

definition ip_frag_off_byte0 :: "u8 list \<Rightarrow> u32 option" where
  "ip_frag_off_byte0 pkt = bpf_load Size_B pkt 6"

definition udp_dest :: "u8 list \<Rightarrow> u32 option" where
  "udp_dest pkt = bpf_load Size_H pkt (ip_hdr_len pkt + 2)"

definition dhcp_op :: "u8 list \<Rightarrow> u32 option" where
  "dhcp_op pkt = bpf_load Size_B pkt (ip_hdr_len pkt + 8 + 0)"

definition dhcp_xid :: "u8 list \<Rightarrow> u32 option" where
  "dhcp_xid pkt = bpf_load Size_W pkt (ip_hdr_len pkt + 8 + 4)"

definition dhcp_magic :: "u8 list \<Rightarrow> u32 option" where
  "dhcp_magic pkt = bpf_load Size_W pkt (ip_hdr_len pkt + 8 + 236)"

text \<open>The fragment test as the program makes it: one byte, masked with \<open>frag_mask\<close>.\<close>

definition frag_test :: "byte_order \<Rightarrow> u8 list \<Rightarrow> bool" where
  "frag_test bo pkt =
     (case ip_frag_off_byte0 pkt of None \<Rightarrow> False | Some v \<Rightarrow> v AND frag_mask bo = 0)"

text \<open>The length test as the program makes it, in 32-bit arithmetic.\<close>

definition len_test :: "u8 list \<Rightarrow> bool" where
  "len_test pkt =
     (pkt \<noteq> [] \<and> (248 :: u32) \<le> of_nat (length pkt) - of_nat (ip_hdr_len pkt))"

text \<open>The tests on the UDP and DHCP headers.\<close>

definition dhcp_tests :: "u32 \<Rightarrow> u8 list \<Rightarrow> bool" where
  "dhcp_tests xid pkt =
     (udp_dest pkt = Some 68 \<and> dhcp_op pkt = Some 2 \<and> dhcp_xid pkt = Some xid \<and>
      dhcp_magic pkt = Some 0x63825363)"

text \<open>
  The conditions as the specification lists them: UDP, unfragmented (the 16-bit field
  masked with \<open>MF | OFFMASK = 0x3fff\<close> is zero), long enough, client port, BOOTREPLY, the
  transaction id and the magic cookie.
\<close>

definition unfragmented_spec :: "u8 list \<Rightarrow> bool" where
  "unfragmented_spec pkt =
     (case ip_frag_off pkt of None \<Rightarrow> False | Some v \<Rightarrow> v AND 0x3fff = 0)"

definition spec_accepts :: "u32 \<Rightarrow> u8 list \<Rightarrow> bool" where
  "spec_accepts xid pkt =
     (ip_protocol pkt = Some 17 \<and> unfragmented_spec pkt \<and>
      8 + 240 \<le> int (length pkt) - int (ip_hdr_len pkt) \<and>
      udp_dest pkt = Some 68 \<and> dhcp_op pkt = Some 2 \<and> dhcp_xid pkt = Some xid \<and>
      dhcp_magic pkt = Some 0x63825363)"

text \<open>
  Example frames: an IPv4 header of 20 bytes with the two bytes \<open>f0\<close>, \<open>f1\<close> in the field of
  flags and fragment offset, a UDP header from port 67 to port 68, and a BOOTREPLY with the
  transaction id 0x12345678 whose fields after the xid are zero, followed by the magic
  cookie: 268 bytes.
\<close>

definition reply_frame :: "u8 \<Rightarrow> u8 \<Rightarrow> u8 list" where
  "reply_frame f0 f1 =
     [0x45, 0x00, 0x01, 0x0c, 0x00, 0x00, f0, f1, 0x40, 0x11, 0x00, 0x00,
      0xc0, 0x00, 0x02, 0x01, 0xff, 0xff, 0xff, 0xff]
     @ [0x00, 0x43, 0x00, 0x44, 0x00, 0xf8, 0x00, 0x00]
     @ [0x02, 0x01, 0x06, 0x00, 0x12, 0x34, 0x56, 0x78]
     @ replicate 228 0x00
     @ [0x63, 0x82, 0x53, 0x63]"

section \<open>The socket calls of \<^verbatim>\<open>n_dhcp4_network_client_packet_socket_new\<close>\<close>

subsection \<open>System calls, their arguments and their replies\<close>

text \<open>\<^verbatim>\<open>struct sock_fprog\<close> (length and pointer to the array) and the fields of
  \<^verbatim>\<open>struct sockaddr_ll\<close> that the function sets; the designated initialiser leaves every
  other field zero.\<close>

record sock_fprog =
  fp_len :: nat
  fp_filter :: "sock_filter list"

record sockaddr_ll =
  sll_family :: int
  sll_protocol :: u16
  sll_ifindex :: int

datatype sockopt = Opt_fprog sock_fprog | Opt_int int

datatype syscall =
    Sys_socket int int int
  | Sys_setsockopt int int int sockopt
  | Sys_bind int sockaddr_ll
  | Sys_close int

text \<open>The Linux values of the constants.\<close>

definition AF_PACKET :: int where "AF_PACKET = 17"
definition SOCK_DGRAM :: int where "SOCK_DGRAM = 2"
definition SOL_SOCKET :: int where "SOL_SOCKET = 1"
definition SO_ATTACH_FILTER :: int where "SO_ATTACH_FILTER = 26"
definition SOL_PACKET :: int where "SOL_PACKET = 263"
definition PACKET_AUXDATA :: int where "PACKET_AUXDATA = 8"
definition ETH_P_IP :: u16 where "ETH_P_IP = 0x0800"
definition ENOMEM :: int where "ENOMEM = 12"

text \<open>
  The reply of the kernel to a call: the value the call returns, and the value it stores
  in \<^verbatim>\<open>errno\<close> when that value is negative. The kernel is a parameter of the model: a
  function from calls to replies.
\<close>

record sys_reply =
  retval :: int
  err :: int

type_synonym kernel = "syscall \<Rightarrow> sys_reply"

text \<open>
  What the function can change: \<^verbatim>\<open>errno\<close>, the set of descriptors the process holds open,
  the \<^verbatim>\<open>int\<close> that \<^verbatim>\<open>sockfdp\<close> points to, and the sequence of calls and stores it has made.
\<close>

datatype event = Call syscall | Store_sockfdp int

record proc =
  errno :: int
  open_fds :: "int set"
  sockfdp :: int
  trace :: "event list"

definition sys :: "kernel \<Rightarrow> syscall \<Rightarrow> proc \<Rightarrow> int \<times> proc" where
  "sys K c p =
     (let r = K c in
      (retval r,
       p\<lparr> errno := (if retval r < 0 then err r else errno p),
          open_fds :=
            (case c of
               Sys_socket _ _ _ \<Rightarrow>
                 (if 0 \<le> retval r then insert (retval r) (open_fds p) else open_fds p)
             | Sys_close fd \<Rightarrow>
                 (if 0 \<le> retval r then open_fds p - {fd} else open_fds p)
             | _ \<Rightarrow> open_fds p),
          trace := trace p @ [Call c] \<rparr>))"

subsection \<open>The function\<close>

text \<open>The four calls, with the arguments the function gives them.\<close>

definition socket_call :: syscall where
  "socket_call = Sys_socket AF_PACKET SOCK_DGRAM 0"

definition attach_call :: "byte_order \<Rightarrow> u32 \<Rightarrow> int \<Rightarrow> syscall" where
  "attach_call bo xid sockfd =
     Sys_setsockopt sockfd SOL_SOCKET SO_ATTACH_FILTER
       (Opt_fprog \<lparr>fp_len = length (filter_prog bo xid), fp_filter = filter_prog bo xid\<rparr>)"

definition auxdata_call :: "int \<Rightarrow> syscall" where
  "auxdata_call sockfd = Sys_setsockopt sockfd SOL_PACKET PACKET_AUXDATA (Opt_int 1)"

definition bind_call :: "byte_order \<Rightarrow> int \<Rightarrow> int \<Rightarrow> syscall" where
  "bind_call bo ifindex sockfd =
     Sys_bind sockfd
       \<lparr>sll_family = AF_PACKET, sll_protocol = htons bo ETH_P_IP, sll_ifindex = ifindex\<rparr>"

text \<open>The body: each call, the test of its result, and the early return of \<^verbatim>\<open>-errno\<close>.\<close>

definition n_dhcp4_network_client_packet_socket_new ::
    "byte_order \<Rightarrow> kernel \<Rightarrow> int \<Rightarrow> u32 \<Rightarrow> proc \<Rightarrow> int \<times> proc" where
  "n_dhcp4_network_client_packet_socket_new bo K ifindex xid p0 =
     (let (sockfd, p1) = sys K socket_call p0 in
      if sockfd < 0 then (- errno p1, p1)
      else
        let (r, p2) = sys K (attach_call bo xid sockfd) p1 in
        if r < 0 then (- errno p2, p2)
        else
          let (r, p3) = sys K (auxdata_call sockfd) p2 in
          if r < 0 then (- errno p3, p3)
          else
            let (r, p4) = sys K (bind_call bo ifindex sockfd) p3 in
            if r < 0 then (- errno p4, p4)
            else (0, p4\<lparr> sockfdp := sockfd, trace := trace p4 @ [Store_sockfdp sockfd] \<rparr>))"

text \<open>The calls in the order the function makes them, given the descriptor that
  \<^verbatim>\<open>socket\<close> returns, and the stores among a sequence of events.\<close>

definition calls_in_order :: "byte_order \<Rightarrow> kernel \<Rightarrow> int \<Rightarrow> u32 \<Rightarrow> syscall list" where
  "calls_in_order bo K ifindex xid =
     (let sockfd = retval (K socket_call) in
      [socket_call, attach_call bo xid sockfd, auxdata_call sockfd,
       bind_call bo ifindex sockfd])"

definition fails :: "kernel \<Rightarrow> syscall \<Rightarrow> bool" where
  "fails K c = (retval (K c) < 0)"

fun stores :: "event list \<Rightarrow> int list" where
  "stores [] = []"
| "stores (Store_sockfdp v # es) = v # stores es"
| "stores (Call c # es) = stores es"

text \<open>Example kernels: one where every call succeeds and \<^verbatim>\<open>socket\<close> returns descriptor 3,
  and three where one of the later calls fails.\<close>

definition ok_reply :: "int \<Rightarrow> sys_reply" where
  "ok_reply v = \<lparr>retval = v, err = 0\<rparr>"

definition fail_reply :: "int \<Rightarrow> sys_reply" where
  "fail_reply e = \<lparr>retval = - 1, err = e\<rparr>"

definition kernel_ok :: kernel where
  "kernel_ok c = (case c of Sys_socket _ _ _ \<Rightarrow> ok_reply 3 | _ \<Rightarrow> ok_reply 0)"

definition kernel_attach_fails :: kernel where
  "kernel_attach_fails c =
     (case c of
        Sys_socket _ _ _ \<Rightarrow> ok_reply 3
      | Sys_setsockopt _ _ opt _ \<Rightarrow>
          if opt = SO_ATTACH_FILTER then fail_reply ENOMEM else ok_reply 0
      | _ \<Rightarrow> ok_reply 0)"

definition kernel_auxdata_fails :: kernel where
  "kernel_auxdata_fails c =
     (case c of
        Sys_socket _ _ _ \<Rightarrow> ok_reply 3
      | Sys_setsockopt _ _ opt _ \<Rightarrow>
          if opt = PACKET_AUXDATA then fail_reply 92 else ok_reply 0
      | _ \<Rightarrow> ok_reply 0)"

definition kernel_bind_fails :: kernel where
  "kernel_bind_fails c =
     (case c of
        Sys_socket _ _ _ \<Rightarrow> ok_reply 3
      | Sys_bind _ _ \<Rightarrow> fail_reply 19
      | _ \<Rightarrow> ok_reply 0)"

definition proc0 :: proc where
  "proc0 = \<lparr>errno = 0, open_fds = {0, 1, 2}, sockfdp = - 1, trace = []\<rparr>"

section \<open>\<^verbatim>\<open>parse_hexstr\<close> of the test client\<close>

text \<open>The \<^verbatim>\<open>switch\<close> over the character: the value of a hexadecimal digit, and 0 for every
  other character.\<close>

definition hex_value :: "char \<Rightarrow> u8" where
  "hex_value c =
     (let n = (of_char c :: nat) in
      if of_char CHR ''0'' \<le> n \<and> n \<le> of_char CHR ''9'' then of_char c - of_char CHR ''0''
      else if of_char CHR ''a'' \<le> n \<and> n \<le> of_char CHR ''f'' then of_char c - of_char CHR ''a'' + 0xa
      else if of_char CHR ''A'' \<le> n \<and> n \<le> of_char CHR ''F'' then of_char c - of_char CHR ''A'' + 0xa
      else 0)"

text \<open>The loop over the input, with the index \<open>i\<close> and the output buffer as its state.\<close>

function hex_loop :: "string \<Rightarrow> nat \<Rightarrow> u8 list \<Rightarrow> u8 list" where
  "hex_loop inp i outp =
     (if i < length inp then
        (let v = hex_value (inp ! i) in
         hex_loop inp (i + 1)
           (if i mod 2 \<noteq> 0
            then outp[i div 2 := push_bit 4 (outp ! (i div 2)) OR v]
            else outp[i div 2 := v]))
      else outp)"
  by pat_completeness auto
termination
  by (relation "measure (\<lambda>(inp, i, outp). length inp - i)") auto

declare hex_loop.simps [simp del]

text \<open>
  \<^verbatim>\<open>malloc\<close> either fails or yields a buffer of the size asked for, whose bytes are
  indeterminate: \<open>None\<close>, or \<open>Some g\<close> where \<open>g i\<close> is the byte found at index \<open>i\<close>. On
  success the function stores the buffer and its length through \<^verbatim>\<open>strp\<close> and \<^verbatim>\<open>n_strp\<close>;
  on failure it stores nothing.
\<close>

definition parse_hexstr :: "(nat \<Rightarrow> u8) option \<Rightarrow> string \<Rightarrow> int \<times> (u8 list \<times> nat) option" where
  "parse_hexstr malloc inp =
     (let n_in = length inp; n_out = (n_in + 1) div 2 in
      case malloc of
        None \<Rightarrow> (- ENOMEM, None)
      | Some g \<Rightarrow> (0, Some (hex_loop inp 0 (map g [0..<n_out]), n_out)))"

text \<open>
  The decoding as the claim words it: the digits by table, every other character 0, pairs
  of characters with the first in the high nibble, and a last character without partner
  on its own.
\<close>

definition digit_table_spec :: "(char \<times> u8) list" where
  "digit_table_spec =
     zip ''0123456789abcdef'' [0, 1, 2, 3, 4, 5, 6, 7, 8, 9, 10, 11, 12, 13, 14, 15]
     @ zip ''ABCDEF'' [10, 11, 12, 13, 14, 15]"

definition nibble_spec :: "char \<Rightarrow> u8" where
  "nibble_spec c = (case map_of digit_table_spec c of None \<Rightarrow> 0 | Some v \<Rightarrow> v)"

fun decode_pairs_spec :: "string \<Rightarrow> u8 list" where
  "decode_pairs_spec (c1 # c2 # cs) =
     (push_bit 4 (nibble_spec c1) OR nibble_spec c2) # decode_pairs_spec cs"
| "decode_pairs_spec [c] = [nibble_spec c]"
| "decode_pairs_spec [] = []"

section \<open>The filter: decoding and execution\<close>

lemmas dec_simps = decode_def decode_size_def decode_src_def decode_alu_def decode_cond_def
  BPF_CLASS_def BPF_SIZE_def BPF_MODE_def BPF_OP_def BPF_SRC_def BPF_RVAL_def BPF_MISCOP_def
  BPF_STMT_def BPF_JUMP_def bpf_const

lemma decode_filter_prog:
  "decode_prog (filter_prog bo xid) = Some (insns bo xid)"
  by (simp add: decode_prog_def filter_prog_def dec_simps hdr_const frag_mask_def insns_def)

lemma frag_mask_values: "frag_mask LittleEndian = 0xff3f" "frag_mask BigEndian = 0x3fff"
  by (simp_all add: frag_mask_def ntohs_def bswap16_def hdr_const)

lemma bpf_check_filter_prog: "bpf_check (filter_prog bo xid)"
  by (simp add: bpf_check_def decode_filter_prog) (simp add: insns_def upt_conv_Cons)

subsection \<open>Running the program from each of its entry points\<close>

lemma insns_nth:
  "insns bo xid ! 0 = Ld_abs Size_B 9" "insns bo xid ! 1 = Jmp Cond_eq Src_K 17 1 0"
  "insns bo xid ! 2 = Ret_k 0" "insns bo xid ! 3 = Ld_abs Size_B 6"
  "insns bo xid ! 4 = Alu Alu_and Src_K (frag_mask bo)" "insns bo xid ! 5 = Jmp Cond_eq Src_K 0 1 0"
  "insns bo xid ! 6 = Ret_k 0" "insns bo xid ! 7 = Ldx_msh 0"
  "insns bo xid ! 8 = Ld_len" "insns bo xid ! 9 = Alu Alu_sub Src_X 0"
  "insns bo xid ! 10 = Jmp Cond_ge Src_K 248 1 0" "insns bo xid ! 11 = Ret_k 0"
  "insns bo xid ! 12 = Ld_ind Size_H 2" "insns bo xid ! 13 = Jmp Cond_eq Src_K 68 1 0"
  "insns bo xid ! 14 = Ret_k 0" "insns bo xid ! 15 = Ld_imm 8"
  "insns bo xid ! 16 = Alu Alu_add Src_X 0" "insns bo xid ! 17 = Tax"
  "insns bo xid ! 18 = Ld_ind Size_B 0" "insns bo xid ! 19 = Jmp Cond_eq Src_K 2 1 0"
  "insns bo xid ! 20 = Ret_k 0" "insns bo xid ! 21 = Ld_ind Size_W 4"
  "insns bo xid ! 22 = Jmp Cond_eq Src_K xid 1 0" "insns bo xid ! 23 = Ret_k 0"
  "insns bo xid ! 24 = Ld_ind Size_W 236" "insns bo xid ! 25 = Jmp Cond_eq Src_K 0x63825363 1 0"
  "insns bo xid ! 26 = Ret_k 0" "insns bo xid ! 27 = Ret_k 65535"
  by (simp_all add: insns_def)

lemma insns_nth_Suc_0: "insns bo xid ! Suc 0 = Jmp Cond_eq Src_K 17 1 0"
  by (simp add: insns_def)

lemma length_insns: "length (insns bo xid) = 28"
  by (simp add: insns_def)

lemma run_unfold:
  "pc < 28 \<Longrightarrow> bpf_run (insns bo xid) pkt pc a x =
     (case bpf_step pkt (insns bo xid ! pc) a x of
        Return v \<Rightarrow> Some v
      | Unmodelled \<Rightarrow> None
      | Continue skip a' x' \<Rightarrow> bpf_run (insns bo xid) pkt (pc + 1 + skip) a' x')"
  by (subst bpf_run.simps) (simp add: length_insns)

lemma unat_small_add_nat:
  "unat (x::u32) \<le> 68 \<Longrightarrow> n \<le> 1000 \<Longrightarrow> unat (x + of_nat n) = unat x + n"
  by (simp add: unat_word_ariths unat_of_nat)

lemma unat_small_add:
  "unat (x::u32) \<le> 68 \<Longrightarrow> numeral n \<le> (1000::nat) \<Longrightarrow>
   unat (x + numeral n) = unat x + numeral n"
  using unat_small_add_nat [of x "numeral n"] by simp

lemma unat_8_plus: "unat (x::u32) \<le> 60 \<Longrightarrow> unat (8 + x) = unat x + 8"
  by (simp add: unat_word_ariths)

lemmas step_simps = insns_nth load_at_def cond_holds_def operand_def alu_op_def unat_small_add

lemma run_27: "bpf_run (insns bo xid) pkt 27 a x = Some 65535"
  by (simp add: run_unfold [where pc = 27] step_simps)

lemma run_26: "bpf_run (insns bo xid) pkt 26 a x = Some 0"
  by (simp add: run_unfold [where pc = 26] step_simps)

lemma run_24:
  assumes "unat x \<le> 68"
  shows "bpf_run (insns bo xid) pkt 24 a x =
    Some (if bpf_load Size_W pkt (unat x + 236) = Some 0x63825363 then 65535 else 0)"
  using assms
  by (cases "bpf_load Size_W pkt (unat x + 236)")
     (simp_all add: run_unfold [where pc = 24] run_unfold [where pc = 25] run_26 run_27
        step_simps)

lemma run_21:
  assumes "unat x \<le> 68"
  shows "bpf_run (insns bo xid) pkt 21 a x =
    Some (if bpf_load Size_W pkt (unat x + 4) = Some xid \<and>
             bpf_load Size_W pkt (unat x + 236) = Some 0x63825363 then 65535 else 0)"
  using assms
  by (cases "bpf_load Size_W pkt (unat x + 4)")
     (simp_all add: run_unfold [where pc = 21] run_unfold [where pc = 22]
        run_unfold [where pc = 23] run_24 step_simps)

lemma run_18:
  assumes "unat x \<le> 68"
  shows "bpf_run (insns bo xid) pkt 18 a x =
    Some (if bpf_load Size_B pkt (unat x) = Some 2 \<and>
             bpf_load Size_W pkt (unat x + 4) = Some xid \<and>
             bpf_load Size_W pkt (unat x + 236) = Some 0x63825363 then 65535 else 0)"
  using assms
  by (cases "bpf_load Size_B pkt (unat x)")
     (simp_all add: run_unfold [where pc = 18] run_unfold [where pc = 19]
        run_unfold [where pc = 20] run_21 step_simps)

lemma run_15:
  assumes "unat x \<le> 60"
  shows "bpf_run (insns bo xid) pkt 15 a x =
    Some (if bpf_load Size_B pkt (unat x + 8) = Some 2 \<and>
             bpf_load Size_W pkt (unat x + 12) = Some xid \<and>
             bpf_load Size_W pkt (unat x + 244) = Some 0x63825363 then 65535 else 0)"
proof -
  have u: "unat (8 + x) = unat x + 8"
    using assms by (rule unat_8_plus)
  have b: "unat (8 + x) \<le> 68"
    using assms u by simp
  have e: "unat x + 8 + 4 = unat x + 12" "unat x + 8 + 236 = unat x + 244"
    by simp_all
  have "bpf_run (insns bo xid) pkt 15 a x = bpf_run (insns bo xid) pkt 18 (8 + x) (8 + x)"
    by (simp add: run_unfold [where pc = 15] run_unfold [where pc = 16]
        run_unfold [where pc = 17] insns_nth operand_def alu_op_def)
  also note run_18 [OF b]
  finally show ?thesis
    unfolding u e .
qed

lemma run_12:
  assumes "unat x \<le> 60"
  shows "bpf_run (insns bo xid) pkt 12 a x =
    Some (if bpf_load Size_H pkt (unat x + 2) = Some 68 \<and>
             bpf_load Size_B pkt (unat x + 8) = Some 2 \<and>
             bpf_load Size_W pkt (unat x + 12) = Some xid \<and>
             bpf_load Size_W pkt (unat x + 244) = Some 0x63825363 then 65535 else 0)"
  using assms
  by (cases "bpf_load Size_H pkt (unat x + 2)")
     (simp_all add: run_unfold [where pc = 12] run_unfold [where pc = 13]
        run_unfold [where pc = 14] run_15 step_simps)

subsection \<open>The header length register\<close>

lemma mask_4: "(0x0f::u32) = mask 4"
  by (simp add: mask_eq_exp_minus_1)

lemma unat_ucast_u8: "unat (ucast (b::u8) :: u32) = unat b"
proof -
  have "unat b < 2 ^ 8"
    using unsigned_less [of b] by simp
  then show ?thesis
    by (simp add: unsigned_ucast_eq take_bit_eq_mod)
qed

lemma unat_low_nibble: "unat ((ucast (b::u8) :: u32) AND 0x0f) = unat b mod 16"
  unfolding mask_4
  by (simp flip: take_bit_eq_mask
      add: unsigned_take_bit_eq take_bit_eq_mod unat_ucast_u8 unat_mod_distrib)

lemma msh_value:
  assumes "bpf_load Size_B pkt 0 = Some v"
  shows "unat (push_bit 2 (v AND 0x0f)) = ip_hdr_len pkt"
proof (cases pkt)
  case Nil
  with assms show ?thesis
    by (simp add: bpf_load_def size_bytes_def)
next
  case (Cons b rest)
  with assms have v: "v = ucast b"
    by (simp add: bpf_load_def size_bytes_def be_value_def)
  have "unat (v AND 0x0f) = unat b mod 16"
    unfolding v by (rule unat_low_nibble)
  moreover have "unat b mod 16 < 16"
    by simp
  ultimately have "unat (push_bit 2 (v AND 0x0f)) = 4 * (unat b mod 16)"
    by (simp add: push_bit_eq_mult unat_word_ariths)
  with Cons show ?thesis
    by (simp add: ip_hdr_len_def)
qed

lemma ip_hdr_len_le: "ip_hdr_len pkt \<le> 60"
  by (cases pkt) (simp_all add: ip_hdr_len_def)

lemma load_byte0_None: "bpf_load Size_B pkt 0 = None \<longleftrightarrow> pkt = []"
  by (cases pkt) (simp_all add: bpf_load_def size_bytes_def)

lemma run_7:
  "bpf_run (insns bo xid) pkt 7 a x =
     Some (if len_test pkt \<and> dhcp_tests xid pkt then 65535 else 0)"
proof (cases "bpf_load Size_B pkt 0")
  case None
  then have "pkt = []"
    by (simp add: load_byte0_None)
  with None show ?thesis
    by (simp add: run_unfold [where pc = 7] insns_nth load_at_def len_test_def)
next
  case (Some v)
  define h where "h = push_bit 2 (v AND 0x0f)"
  have uh: "unat h = ip_hdr_len pkt"
    unfolding h_def using Some by (rule msh_value)
  then have hle: "unat h \<le> 60"
    by (simp add: ip_hdr_len_le)
  have "of_nat (unat h) = h"
    by simp
  with uh have hw: "h = of_nat (ip_hdr_len pkt)"
    by simp
  have ne: "pkt \<noteq> []"
    using Some by (cases pkt) (simp_all add: bpf_load_def size_bytes_def)
  have e: "ip_hdr_len pkt + 8 + 0 = ip_hdr_len pkt + 8" "ip_hdr_len pkt + 8 + 4 = ip_hdr_len pkt + 12"
    "ip_hdr_len pkt + 8 + 236 = ip_hdr_len pkt + 244"
    by simp_all
  have "bpf_run (insns bo xid) pkt 7 a x =
      (if (248::u32) \<le> of_nat (length pkt) - h
       then bpf_run (insns bo xid) pkt 12 (of_nat (length pkt) - h) h else Some 0)"
    using Some
    by (simp add: run_unfold [where pc = 7] run_unfold [where pc = 8]
        run_unfold [where pc = 9] run_unfold [where pc = 10] run_unfold [where pc = 11]
        insns_nth load_at_def cond_holds_def operand_def alu_op_def h_def)
  then show ?thesis
    unfolding run_12 [OF hle] uh len_test_def dhcp_tests_def udp_dest_def dhcp_op_def
      dhcp_xid_def dhcp_magic_def e
    using ne by (simp add: hw)
qed

lemma run_3:
  "bpf_run (insns bo xid) pkt 3 a x =
     Some (if frag_test bo pkt \<and> len_test pkt \<and> dhcp_tests xid pkt then 65535 else 0)"
  by (cases "bpf_load Size_B pkt 6")
     (simp_all add: run_unfold [where pc = 3] run_unfold [where pc = 4]
        run_unfold [where pc = 5] run_unfold [where pc = 6] run_7 insns_nth load_at_def
        cond_holds_def operand_def alu_op_def frag_test_def ip_frag_off_byte0_def)

lemma run_2_Suc: "bpf_run (insns bo xid) pkt (Suc (Suc 0)) a x = Some 0"
proof -
  have "bpf_run (insns bo xid) pkt 2 a x = Some 0"
    by (simp add: run_unfold [where pc = 2] insns_nth)
  then show ?thesis
    unfolding numeral_2_eq_2 .
qed

lemma run_3_Suc:
  "bpf_run (insns bo xid) pkt (Suc (Suc (Suc 0))) a x = bpf_run (insns bo xid) pkt 3 a x"
  by (simp add: numeral_3_eq_3)

lemma run_0:
  "bpf_run (insns bo xid) pkt 0 a x =
     Some (if ip_protocol pkt = Some 17 \<and> frag_test bo pkt \<and> len_test pkt \<and>
              dhcp_tests xid pkt then 65535 else 0)"
  by (cases "bpf_load Size_B pkt 9")
     (simp_all add: run_unfold [where pc = 0] run_unfold [where pc = "Suc 0"]
        run_2_Suc run_3_Suc run_3 insns_nth insns_nth_Suc_0 load_at_def
        cond_holds_def operand_def ip_protocol_def)

lemma filter_result:
  "bpf_filter (filter_prog bo xid) pkt =
     Some (if ip_protocol pkt = Some 17 \<and> frag_test bo pkt \<and> len_test pkt \<and>
              dhcp_tests xid pkt then 65535 else 0)"
  by (simp add: bpf_filter_def decode_filter_prog run_0)

subsection \<open>The example frames\<close>

lemmas field_defs = ip_protocol_def ip_frag_off_def ip_frag_off_byte0_def udp_dest_def
  dhcp_op_def dhcp_xid_def dhcp_magic_def ip_hdr_len_def bpf_load_def size_bytes_def
  be_value_def

lemma reply_fields:
  "ip_protocol (reply_frame f0 f1) = Some 17"
  "ip_frag_off_byte0 (reply_frame f0 f1) = Some (ucast f0)"
  "ip_frag_off (reply_frame f0 f1) = Some (push_bit 8 (ucast f0) OR ucast f1)"
  "ip_hdr_len (reply_frame f0 f1) = 20"
  "length (reply_frame f0 f1) = 268"
  "udp_dest (reply_frame f0 f1) = Some 68"
  "dhcp_op (reply_frame f0 f1) = Some 2"
  "dhcp_xid (reply_frame f0 f1) = Some 0x12345678"
  "dhcp_magic (reply_frame f0 f1) = Some 0x63825363"
  by (simp_all add: reply_frame_def field_defs)

lemma reply_len_test: "len_test (reply_frame f0 f1)"
  by (simp add: len_test_def reply_fields) (simp add: reply_frame_def)

lemma reply_dhcp_tests: "dhcp_tests 0x12345678 (reply_frame f0 f1)"
  by (simp add: dhcp_tests_def reply_fields)

subsection \<open>The length test in natural numbers\<close>

text \<open>For a frame whose length fits the 32-bit length field, the length test together with
  the loads that follow it amounts to \<open>ip_hdr_len pkt + 248 \<le> length pkt\<close>.\<close>

lemma len_test_nat:
  assumes "length pkt < 2 ^ 32"
  shows "len_test pkt \<and> dhcp_tests xid pkt \<longleftrightarrow>
    ip_hdr_len pkt + 248 \<le> length pkt \<and> dhcp_tests xid pkt"
proof -
  have a: "ip_hdr_len pkt + 248 \<le> length pkt" if "dhcp_tests xid pkt"
    using that
    by (simp add: dhcp_tests_def dhcp_magic_def bpf_load_def size_bytes_def split: if_splits)
  have b: "len_test pkt" if h: "ip_hdr_len pkt + 248 \<le> length pkt"
  proof -
    have ne: "pkt \<noteq> []"
      using h by auto
    have "(of_nat (length pkt) :: u32) - of_nat (ip_hdr_len pkt) =
        of_nat (length pkt - ip_hdr_len pkt)"
      using h by simp
    moreover have "unat (of_nat (length pkt - ip_hdr_len pkt) :: u32) =
        length pkt - ip_hdr_len pkt"
      using assms by (simp add: unat_of_nat)
    ultimately have "unat ((of_nat (length pkt) :: u32) - of_nat (ip_hdr_len pkt)) =
        length pkt - ip_hdr_len pkt"
      by simp
    with h have "(248 :: u32) \<le> of_nat (length pkt) - of_nat (ip_hdr_len pkt)"
      by (simp add: word_le_nat_alt)
    with ne show ?thesis
      by (simp add: len_test_def)
  qed
  from a b show ?thesis
    by blast
qed

lemma filter_result_nat:
  assumes "length pkt < 2 ^ 32"
  shows "bpf_filter (filter_prog bo xid) pkt =
     Some (if ip_protocol pkt = Some 17 \<and> frag_test bo pkt \<and>
              ip_hdr_len pkt + 248 \<le> length pkt \<and> dhcp_tests xid pkt then 65535 else 0)"
  using len_test_nat [OF assms, of xid] by (auto simp add: filter_result)

subsection \<open>Frames with the MF flag set\<close>

text \<open>The MF flag is bit 13 of the 16-bit field, which is bit 5 of its first byte; the mask
  of either byte order covers it.\<close>

lemma bit13: "(v::u32) AND 0x2000 \<noteq> 0 \<longleftrightarrow> bit v 13"
proof -
  have "(0x2000::u32) = 2 ^ 13" by simp
  then show ?thesis
    by (simp only: and_exp_eq_0_iff_not_bit) simp
qed

lemma bit5_mask: "bit (w::u32) 5 \<Longrightarrow> w AND frag_mask bo \<noteq> 0"
proof
  assume b: "bit w 5" and z: "w AND frag_mask bo = 0"
  have "bit (frag_mask bo) 5"
    by (cases bo) (simp_all add: frag_mask_values)
  with b have "bit (w AND frag_mask bo) 5"
    by (simp add: bit_and_iff)
  with z show False
    by simp
qed

lemma half_bit13:
  "bit (push_bit 8 (ucast (b0::u8)) OR ucast (b1::u8) :: u32) 13 \<longleftrightarrow> bit (ucast b0 :: u32) 5"
  by (auto simp add: bit_or_iff bit_push_bit_iff bit_ucast_iff dest: bit_imp_le_length)

lemma mf_set_dropped:
  assumes "ip_frag_off pkt = Some v" and "v AND ucast IP_MF \<noteq> 0"
  shows "bpf_filter (filter_prog bo xid) pkt = Some 0"
proof -
  from assms(1) obtain b0 b1 where
    v: "v = push_bit 8 (ucast (b0::u8)) OR ucast (b1::u8)"
    and b: "ip_frag_off_byte0 pkt = Some (ucast b0)"
    by (auto simp add: ip_frag_off_def ip_frag_off_byte0_def bpf_load_def size_bytes_def
        be_value_def take_Suc_conv_app_nth numeral_2_eq_2 split: if_splits)
  from assms(2) have "bit v 13"
    by (simp add: IP_MF_def bit13)
  then have "bit (ucast b0 :: u32) 5"
    unfolding v by (simp only: half_bit13)
  then have "ucast b0 AND frag_mask bo \<noteq> 0"
    by (rule bit5_mask)
  with b have "\<not> frag_test bo pkt"
    by (simp add: frag_test_def)
  then show ?thesis
    by (simp add: filter_result)
qed

subsection \<open>Frames with the DF flag set\<close>

text \<open>On a big-endian host \<^verbatim>\<open>ntohs\<close> is the identity and the mask keeps all eight bits of
  the byte, so an unfragmented frame that carries the DF flag is dropped there; on a
  little-endian host it is accepted.\<close>

lemma df_frame_by_byte_order:
  "spec_accepts 0x12345678 (reply_frame 0x40 0x00) \<and>
   bpf_filter (filter_prog LittleEndian 0x12345678) (reply_frame 0x40 0x00) = Some 65535 \<and>
   bpf_filter (filter_prog BigEndian 0x12345678) (reply_frame 0x40 0x00) = Some 0"
  by (simp add: filter_result reply_fields reply_len_test reply_dhcp_tests frag_test_def
      frag_mask_values spec_accepts_def unfragmented_spec_def)

section \<open>Claims about the filter\<close>

text \<open>
  C1, at a failing input. The claim: the filter accepts a frame if and only if it is UDP,
  unfragmented, long enough, for the client port, a BOOTREPLY, and carries the xid and
  the magic cookie. The frame below is the last fragment of a datagram (fragment offset 1,
  MF clear) and meets every other condition; the filter accepts it on a host of either
  byte order, because it tests only the first byte of the 16-bit field.
\<close>

theorem filter_accepts_fragment:
  "bpf_filter (filter_prog LittleEndian 0x12345678) (reply_frame 0x00 0x01) = Some 65535 \<and>
   bpf_filter (filter_prog BigEndian 0x12345678) (reply_frame 0x00 0x01) = Some 65535 \<and>
   \<not> spec_accepts 0x12345678 (reply_frame 0x00 0x01)"
  by (simp add: filter_result reply_fields reply_len_test reply_dhcp_tests frag_test_def
      frag_mask_values spec_accepts_def unfragmented_spec_def)

text \<open>
  C2, at a failing input. The claim: a UDP frame whose 16-bit field of flags and fragment
  offset, masked with \<open>MF | OFFMASK\<close>, is not zero is dropped. The frame below has the
  fragment offset 185 (the second fragment of a datagram cut at 1480 bytes), so the masked
  field is 0xb9, and the filter returns 65535.
\<close>

theorem fragment_offset_185_accepted:
  "ip_protocol (reply_frame 0x00 0xb9) = Some 17 \<and>
   ip_frag_off (reply_frame 0x00 0xb9) = Some 0x00b9 \<and>
   (0x00b9 :: u32) AND ucast (IP_MF OR IP_OFFMASK) \<noteq> 0 \<and>
   bpf_filter (filter_prog LittleEndian 0x12345678) (reply_frame 0x00 0xb9) = Some 65535 \<and>
   bpf_filter (filter_prog BigEndian 0x12345678) (reply_frame 0x00 0xb9) = Some 65535"
  by (simp add: filter_result reply_fields reply_len_test reply_dhcp_tests frag_test_def
      frag_mask_values IP_MF_def IP_OFFMASK_def)

text \<open>
  C5. The xid given at socket creation is the operand of the comparison at instruction 22.
  A frame whose xid field (32 bits in network order, 4 bytes into the DHCP header) is not
  that xid is dropped; for a frame that carries it, the result is that of the other tests
  alone.
\<close>

theorem xid_test:
  "f_k (filter_prog bo xid ! 22) = xid \<and>
   decode (filter_prog bo xid ! 22) = Some (Jmp Cond_eq Src_K xid 1 0) \<and>
   (dhcp_xid pkt \<noteq> Some xid \<longrightarrow> bpf_filter (filter_prog bo xid) pkt = Some 0) \<and>
   (dhcp_xid pkt = Some xid \<longrightarrow>
      bpf_filter (filter_prog bo xid) pkt =
        Some (if ip_protocol pkt = Some 17 \<and> frag_test bo pkt \<and> len_test pkt \<and>
                 udp_dest pkt = Some 68 \<and> dhcp_op pkt = Some 2 \<and>
                 dhcp_magic pkt = Some 0x63825363
              then 65535 else 0))"
proof -
  have "f_k (filter_prog bo xid ! 22) = xid"
    by (simp add: filter_prog_def BPF_JUMP_def)
  moreover have "decode (filter_prog bo xid ! 22) = Some (Jmp Cond_eq Src_K xid 1 0)"
    by (simp add: filter_prog_def dec_simps)
  moreover have "dhcp_xid pkt \<noteq> Some xid \<longrightarrow> bpf_filter (filter_prog bo xid) pkt = Some 0"
    by (simp add: filter_result dhcp_tests_def)
  moreover have "dhcp_xid pkt = Some xid \<longrightarrow>
      bpf_filter (filter_prog bo xid) pkt =
        Some (if ip_protocol pkt = Some 17 \<and> frag_test bo pkt \<and> len_test pkt \<and>
                 udp_dest pkt = Some 68 \<and> dhcp_op pkt = Some 2 \<and>
                 dhcp_magic pkt = Some 0x63825363
              then 65535 else 0)"
    by (simp add: filter_result dhcp_tests_def)
  ultimately show ?thesis
    by blast
qed

theorem xid_test_witness:
  "dhcp_xid (reply_frame 0 0) = Some 0x12345678 \<and>
   bpf_filter (filter_prog LittleEndian 0x12345678) (reply_frame 0 0) = Some 65535 \<and>
   dhcp_xid (reply_frame 0 0) \<noteq> Some 0x12345679 \<and>
   bpf_filter (filter_prog LittleEndian 0x12345679) (reply_frame 0 0) = Some 0"
  using xid_test [of LittleEndian "0x12345678" "reply_frame 0 0"]
    xid_test [of LittleEndian "0x12345679" "reply_frame 0 0"]
  by (simp add: reply_fields reply_len_test frag_test_def)

text \<open>
  C7. The destination port is the 16-bit field at the IP header length plus the offset of
  \<^verbatim>\<open>dest\<close> in the UDP header, read by instruction 12 with the header length in X and
  compared with the client port 68 by instruction 13. A frame whose field is not 68 (or
  that is too short to have one) is dropped.
\<close>

theorem port_test:
  "udp_dest pkt = bpf_load Size_H pkt (ip_hdr_len pkt + unat offsetof_udphdr_dest) \<and>
   decode (filter_prog bo xid ! 12) = Some (Ld_ind Size_H offsetof_udphdr_dest) \<and>
   decode (filter_prog bo xid ! 13) = Some (Jmp Cond_eq Src_K N_DHCP4_NETWORK_CLIENT_PORT 1 0) \<and>
   N_DHCP4_NETWORK_CLIENT_PORT = 68 \<and>
   (udp_dest pkt \<noteq> Some 68 \<longrightarrow> bpf_filter (filter_prog bo xid) pkt = Some 0)"
proof -
  have "udp_dest pkt = bpf_load Size_H pkt (ip_hdr_len pkt + unat offsetof_udphdr_dest)"
    by (simp add: udp_dest_def offsetof_udphdr_dest_def)
  moreover have "decode (filter_prog bo xid ! 12) = Some (Ld_ind Size_H offsetof_udphdr_dest)"
    by (simp add: filter_prog_def dec_simps)
  moreover have "decode (filter_prog bo xid ! 13) =
      Some (Jmp Cond_eq Src_K N_DHCP4_NETWORK_CLIENT_PORT 1 0)"
    by (simp add: filter_prog_def dec_simps)
  moreover have "udp_dest pkt \<noteq> Some 68 \<longrightarrow> bpf_filter (filter_prog bo xid) pkt = Some 0"
    by (simp add: filter_result dhcp_tests_def)
  ultimately show ?thesis
    by (simp add: N_DHCP4_NETWORK_CLIENT_PORT_def)
qed

theorem port_test_witness:
  "udp_dest (take 20 (reply_frame 0 0) @ [0, 67, 0, 67] @ drop 24 (reply_frame 0 0)) = Some 67 \<and>
   bpf_filter (filter_prog LittleEndian 0x12345678)
     (take 20 (reply_frame 0 0) @ [0, 67, 0, 67] @ drop 24 (reply_frame 0 0)) = Some 0"
proof -
  have "udp_dest (take 20 (reply_frame 0 0) @ [0, 67, 0, 67] @ drop 24 (reply_frame 0 0)) = Some 67"
    by (simp add: reply_frame_def field_defs)
  then show ?thesis
    using port_test [of "take 20 (reply_frame 0 0) @ [0, 67, 0, 67] @ drop 24 (reply_frame 0 0)"
        LittleEndian "0x12345678"]
    by simp
qed

text \<open>
  C9, as the claim states it: the program has 24 instructions. It has 28.
\<close>

theorem filter_prog_not_24: "length (filter_prog LittleEndian 0x12345678) \<noteq> 24"
  by (simp add: filter_prog_def)

text \<open>
  C9, amended. The program is a fixed sequence of 28 instructions that passes the static
  check (every jump goes forward to an instruction of the program, the last instruction
  is a return), its return instructions yield the constants 0 and 65535 only, and for
  every frame the run ends with 0 or with 65535.
\<close>

theorem filter_prog_total:
  "length (filter_prog bo xid) = 28 \<and>
   bpf_check (filter_prog bo xid) \<and>
   return_values (filter_prog bo xid) = Some [0, 0, 0, 0, 0, 0, 0, 65535] \<and>
   (bpf_filter (filter_prog bo xid) pkt = Some 0 \<or>
    bpf_filter (filter_prog bo xid) pkt = Some 65535)"
proof -
  have "length (filter_prog bo xid) = 28"
    by (simp add: filter_prog_def)
  moreover have "return_values (filter_prog bo xid) = Some [0, 0, 0, 0, 0, 0, 0, 65535]"
    by (simp add: return_values_def decode_filter_prog) (simp add: insns_def)
  moreover have "bpf_filter (filter_prog bo xid) pkt = Some 0 \<or>
      bpf_filter (filter_prog bo xid) pkt = Some 65535"
    by (simp add: filter_result)
  ultimately show ?thesis
    using bpf_check_filter_prog by blast
qed

section \<open>The socket calls: lemmas and claims\<close>

lemma sys_simps:
  "fst (sys K c p) = retval (K c)"
  "errno (snd (sys K c p)) = (if fails K c then err (K c) else errno p)"
  "trace (snd (sys K c p)) = trace p @ [Call c]"
  "sockfdp (snd (sys K c p)) = sockfdp p"
  by (simp_all add: sys_def Let_def fails_def)

lemma sys_open_fds:
  "open_fds (snd (sys K socket_call p)) =
     (if fails K socket_call then open_fds p else insert (retval (K socket_call)) (open_fds p))"
  "open_fds (snd (sys K (attach_call bo xid fd) p)) = open_fds p"
  "open_fds (snd (sys K (auxdata_call fd) p)) = open_fds p"
  "open_fds (snd (sys K (bind_call bo ifindex fd) p)) = open_fds p"
  by (auto simp add: sys_def Let_def fails_def socket_call_def attach_call_def auxdata_call_def
      bind_call_def)

text \<open>The function, path by path.\<close>

lemma socket_new_unfold:
  "n_dhcp4_network_client_packet_socket_new bo K ifindex xid p0 =
     (let p1 = snd (sys K socket_call p0);
          sockfd = retval (K socket_call);
          p2 = snd (sys K (attach_call bo xid sockfd) p1);
          p3 = snd (sys K (auxdata_call sockfd) p2);
          p4 = snd (sys K (bind_call bo ifindex sockfd) p3)
      in if fails K socket_call then (- err (K socket_call), p1)
         else if fails K (attach_call bo xid sockfd)
           then (- err (K (attach_call bo xid sockfd)), p2)
         else if fails K (auxdata_call sockfd) then (- err (K (auxdata_call sockfd)), p3)
         else if fails K (bind_call bo ifindex sockfd)
           then (- err (K (bind_call bo ifindex sockfd)), p4)
         else (0, p4\<lparr>sockfdp := sockfd, trace := trace p4 @ [Store_sockfdp sockfd]\<rparr>))"
  by (simp add: n_dhcp4_network_client_packet_socket_new_def Let_def split_beta sys_simps fails_def)

lemma stores_append: "stores (es @ fs) = stores es @ stores fs"
  by (induction es rule: stores.induct) simp_all

text \<open>
  C3. The function returns 0 exactly when none of the four calls fails, and otherwise
  the negated \<^verbatim>\<open>errno\<close> of the first call that fails, which is negative. The hypothesis is
  the guarantee of the system interface that a failing call sets \<^verbatim>\<open>errno\<close> to a positive
  value.
\<close>

theorem socket_new_return_value:
  assumes posix: "\<And>c. fails K c \<Longrightarrow> 0 < err (K c)"
  shows
    "fst (n_dhcp4_network_client_packet_socket_new bo K ifindex xid p) =
       (case find (fails K) (calls_in_order bo K ifindex xid) of
          None \<Rightarrow> 0
        | Some c \<Rightarrow> - err (K c)) \<and>
     (fst (n_dhcp4_network_client_packet_socket_new bo K ifindex xid p) = 0 \<longleftrightarrow>
        (\<forall>c \<in> set (calls_in_order bo K ifindex xid). \<not> fails K c)) \<and>
     (fst (n_dhcp4_network_client_packet_socket_new bo K ifindex xid p) \<noteq> 0 \<longrightarrow>
        fst (n_dhcp4_network_client_packet_socket_new bo K ifindex xid p) < 0)"
proof -
  let ?fd = "retval (K socket_call)"
  have neg: "fails K c \<Longrightarrow> - err (K c) < 0 \<and> - err (K c) \<noteq> 0" for c
    using posix [of c] by simp
  show ?thesis
    using neg [of socket_call] neg [of "attach_call bo xid ?fd"] neg [of "auxdata_call ?fd"]
      neg [of "bind_call bo ifindex ?fd"]
    by (simp add: socket_new_unfold calls_in_order_def Let_def)
qed


lemmas example_kernel_defs = kernel_ok_def kernel_attach_fails_def kernel_auxdata_fails_def
  kernel_bind_fails_def ok_reply_def fail_reply_def

lemmas call_defs = socket_call_def attach_call_def auxdata_call_def bind_call_def

lemmas os_const = AF_PACKET_def SOCK_DGRAM_def SOL_SOCKET_def SO_ATTACH_FILTER_def
  SOL_PACKET_def PACKET_AUXDATA_def ENOMEM_def

lemma kernel_bind_fails_posix: "fails kernel_bind_fails c \<Longrightarrow> 0 < err (kernel_bind_fails c)"
  by (cases c) (simp_all add: fails_def example_kernel_defs)

lemma kernel_ok_never_fails: "\<not> fails kernel_ok c"
  by (cases c) (simp_all add: fails_def example_kernel_defs)

theorem socket_new_return_value_witness:
  "fails kernel_bind_fails (bind_call LittleEndian 2 3) \<and>
   err (kernel_bind_fails (bind_call LittleEndian 2 3)) = 19 \<and>
   fst (n_dhcp4_network_client_packet_socket_new LittleEndian kernel_bind_fails 2 0x12345678
     proc0) = - 19 \<and>
   fst (n_dhcp4_network_client_packet_socket_new LittleEndian kernel_ok 2 0x12345678 proc0) = 0"
proof -
  have ok: "fails kernel_ok c \<Longrightarrow> 0 < err (kernel_ok c)" for c
    by (simp add: kernel_ok_never_fails)
  have calls: "find (fails kernel_bind_fails)
      (calls_in_order LittleEndian kernel_bind_fails 2 0x12345678) =
        Some (bind_call LittleEndian 2 3)"
    by (simp add: calls_in_order_def fails_def example_kernel_defs call_defs os_const)
  have e: "fails kernel_bind_fails (bind_call LittleEndian 2 3)"
    "err (kernel_bind_fails (bind_call LittleEndian 2 3)) = 19"
    by (simp_all add: fails_def example_kernel_defs call_defs)
  show ?thesis
    using socket_new_return_value [of kernel_bind_fails LittleEndian 2 "0x12345678" proc0,
        OF kernel_bind_fails_posix]
      socket_new_return_value [of kernel_ok LittleEndian 2 "0x12345678" proc0, OF ok]
    by (simp add: calls e kernel_ok_never_fails)
qed

text \<open>
  C4, at failing inputs. The claim: on an error after the socket was created, its
  descriptor is closed before the error is returned. With a kernel where \<^verbatim>\<open>socket\<close> yields
  descriptor 3 and the filter attach, the auxdata option or the bind fails, the function
  returns the negated \<^verbatim>\<open>errno\<close> having made no \<^verbatim>\<open>close\<close> call: descriptor 3 is still
  open, and it was not stored through \<^verbatim>\<open>sockfdp\<close> either.
\<close>

theorem socket_left_open_on_error:
  "n_dhcp4_network_client_packet_socket_new LittleEndian kernel_attach_fails 2 0x12345678 proc0 =
     (- ENOMEM,
      \<lparr>errno = ENOMEM, open_fds = {3, 0, 1, 2}, sockfdp = - 1,
       trace = [Call socket_call, Call (attach_call LittleEndian 0x12345678 3)]\<rparr>) \<and>
   n_dhcp4_network_client_packet_socket_new LittleEndian kernel_auxdata_fails 2 0x12345678 proc0 =
     (- 92,
      \<lparr>errno = 92, open_fds = {3, 0, 1, 2}, sockfdp = - 1,
       trace = [Call socket_call, Call (attach_call LittleEndian 0x12345678 3),
                Call (auxdata_call 3)]\<rparr>) \<and>
   n_dhcp4_network_client_packet_socket_new LittleEndian kernel_bind_fails 2 0x12345678 proc0 =
     (- 19,
      \<lparr>errno = 19, open_fds = {3, 0, 1, 2}, sockfdp = - 1,
       trace = [Call socket_call, Call (attach_call LittleEndian 0x12345678 3),
                Call (auxdata_call 3), Call (bind_call LittleEndian 2 3)]\<rparr>)"
  by (simp add: socket_new_unfold Let_def fails_def sys_def proc0_def example_kernel_defs
      call_defs os_const)

text \<open>
  C6. When the function reports success it has made, in this order, the calls
  \<^verbatim>\<open>socket(AF_PACKET, SOCK_DGRAM, 0)\<close>, the filter attach, the \<^verbatim>\<open>PACKET_AUXDATA\<close> option with
  value 1, and \<^verbatim>\<open>bind\<close> with family \<^verbatim>\<open>AF_PACKET\<close>, protocol \<^verbatim>\<open>htons(ETH_P_IP)\<close> and the
  ifindex given, all on the descriptor that \<^verbatim>\<open>socket\<close> returned, and then stored that
  descriptor.
\<close>

theorem socket_new_steps:
  assumes posix: "\<And>c. fails K c \<Longrightarrow> 0 < err (K c)"
    and success: "n_dhcp4_network_client_packet_socket_new bo K ifindex xid p = (0, p')"
  shows
    "trace p' = trace p @
       [Call (Sys_socket AF_PACKET SOCK_DGRAM 0),
        Call (Sys_setsockopt (sockfdp p') SOL_SOCKET SO_ATTACH_FILTER
          (Opt_fprog \<lparr>fp_len = 28, fp_filter = filter_prog bo xid\<rparr>)),
        Call (Sys_setsockopt (sockfdp p') SOL_PACKET PACKET_AUXDATA (Opt_int 1)),
        Call (Sys_bind (sockfdp p')
          \<lparr>sll_family = AF_PACKET, sll_protocol = htons bo ETH_P_IP, sll_ifindex = ifindex\<rparr>),
        Store_sockfdp (sockfdp p')] \<and>
     sockfdp p' = retval (K (Sys_socket AF_PACKET SOCK_DGRAM 0)) \<and>
     0 \<le> sockfdp p' \<and>
     open_fds p' = insert (sockfdp p') (open_fds p)"
proof -
  define fd where "fd = retval (K socket_call)"
  define p4 where "p4 = snd (sys K (bind_call bo ifindex fd) (snd (sys K (auxdata_call fd)
      (snd (sys K (attach_call bo xid fd) (snd (sys K socket_call p)))))))"
  have len: "length (filter_prog bo xid) = 28"
    by (simp add: filter_prog_def)
  have nz: "fails K c \<Longrightarrow> err (K c) \<noteq> 0" for c
    using posix [of c] by simp
  have ok: "\<not> fails K socket_call" "\<not> fails K (attach_call bo xid fd)"
    "\<not> fails K (auxdata_call fd)" "\<not> fails K (bind_call bo ifindex fd)"
    using success nz [of socket_call] nz [of "attach_call bo xid fd"]
      nz [of "auxdata_call fd"] nz [of "bind_call bo ifindex fd"]
    unfolding fd_def
    by (auto simp add: socket_new_unfold Let_def split: if_splits)
  then have "p' = p4\<lparr>sockfdp := fd, trace := trace p4 @ [Store_sockfdp fd]\<rparr>"
    using success unfolding fd_def p4_def
    by (simp add: socket_new_unfold Let_def)
  then show ?thesis
    using ok unfolding p4_def
    by (simp add: sys_simps sys_open_fds len) (simp add: call_defs fails_def fd_def len)
qed

theorem socket_new_steps_witness:
  "n_dhcp4_network_client_packet_socket_new LittleEndian kernel_ok 2 0x12345678 proc0 =
     (0, \<lparr>errno = 0, open_fds = {3, 0, 1, 2}, sockfdp = 3,
          trace = [Call (Sys_socket AF_PACKET SOCK_DGRAM 0),
            Call (Sys_setsockopt 3 SOL_SOCKET SO_ATTACH_FILTER
              (Opt_fprog \<lparr>fp_len = 28, fp_filter = filter_prog LittleEndian 0x12345678\<rparr>)),
            Call (Sys_setsockopt 3 SOL_PACKET PACKET_AUXDATA (Opt_int 1)),
            Call (Sys_bind 3
              \<lparr>sll_family = AF_PACKET, sll_protocol = 0x0008, sll_ifindex = 2\<rparr>),
            Store_sockfdp 3]\<rparr>)"
proof -
  have nf: "fails kernel_ok c \<Longrightarrow> 0 < err (kernel_ok c)" for c
    by (simp add: kernel_ok_never_fails)
  have run: "n_dhcp4_network_client_packet_socket_new LittleEndian kernel_ok 2 0x12345678 proc0 =
      (0, snd (n_dhcp4_network_client_packet_socket_new LittleEndian kernel_ok 2 0x12345678 proc0))"
    by (simp add: socket_new_unfold Let_def kernel_ok_never_fails)
  have rest: "errno (snd (n_dhcp4_network_client_packet_socket_new LittleEndian kernel_ok 2
      0x12345678 proc0)) = 0"
    by (simp add: socket_new_unfold Let_def kernel_ok_never_fails sys_simps proc0_def)
  have fd: "retval (kernel_ok (Sys_socket AF_PACKET SOCK_DGRAM 0)) = 3"
    by (simp add: example_kernel_defs)
  have be: "htons LittleEndian ETH_P_IP = 0x0008"
    by (simp add: htons_def bswap16_def ETH_P_IP_def)
  from socket_new_steps [OF nf run] fd be rest show ?thesis
    by (subst run) (simp add: proc0_def proc.equality)
qed


text \<open>
  C8. When one of the four calls fails, the \<^verbatim>\<open>int\<close> behind \<^verbatim>\<open>sockfdp\<close> keeps its value and
  no store to it is made. When all succeed, the function returns 0 and makes exactly one
  store, of the new descriptor, as its last action.
\<close>

theorem sockfdp_written_on_success_only:
  "((\<exists>c \<in> set (calls_in_order bo K ifindex xid). fails K c) \<longrightarrow>
      sockfdp (snd (n_dhcp4_network_client_packet_socket_new bo K ifindex xid p)) = sockfdp p \<and>
      stores (trace (snd (n_dhcp4_network_client_packet_socket_new bo K ifindex xid p))) =
        stores (trace p)) \<and>
   ((\<forall>c \<in> set (calls_in_order bo K ifindex xid). \<not> fails K c) \<longrightarrow>
      fst (n_dhcp4_network_client_packet_socket_new bo K ifindex xid p) = 0 \<and>
      sockfdp (snd (n_dhcp4_network_client_packet_socket_new bo K ifindex xid p)) =
        retval (K socket_call) \<and>
      trace (snd (n_dhcp4_network_client_packet_socket_new bo K ifindex xid p)) =
        trace p @ map Call (calls_in_order bo K ifindex xid) @
          [Store_sockfdp (retval (K socket_call))] \<and>
      stores (trace (snd (n_dhcp4_network_client_packet_socket_new bo K ifindex xid p))) =
        stores (trace p) @ [retval (K socket_call)])"
  by (simp add: socket_new_unfold calls_in_order_def Let_def sys_simps stores_append)

theorem sockfdp_written_on_success_only_witness:
  "fails kernel_bind_fails (bind_call LittleEndian 2 3) \<and>
   sockfdp (snd (n_dhcp4_network_client_packet_socket_new LittleEndian kernel_bind_fails 2
     0x12345678 proc0)) = - 1 \<and>
   stores (trace (snd (n_dhcp4_network_client_packet_socket_new LittleEndian kernel_bind_fails 2
     0x12345678 proc0))) = [] \<and>
   sockfdp (snd (n_dhcp4_network_client_packet_socket_new LittleEndian kernel_ok 2
     0x12345678 proc0)) = 3 \<and>
   stores (trace (snd (n_dhcp4_network_client_packet_socket_new LittleEndian kernel_ok 2
     0x12345678 proc0))) = [3]"
proof -
  have f: "fails kernel_bind_fails (bind_call LittleEndian 2 3)"
    by (simp add: fails_def example_kernel_defs call_defs)
  have fd: "retval (kernel_bind_fails socket_call) = 3" "retval (kernel_ok socket_call) = 3"
    by (simp_all add: example_kernel_defs call_defs)
  have ex: "\<exists>c \<in> set (calls_in_order LittleEndian kernel_bind_fails 2 0x12345678).
      fails kernel_bind_fails c"
    using f by (simp add: calls_in_order_def fd)
  have all: "\<forall>c \<in> set (calls_in_order LittleEndian kernel_ok 2 0x12345678).
      \<not> fails kernel_ok c"
    by (simp add: kernel_ok_never_fails)
  have v: "sockfdp proc0 = - 1" "stores (trace proc0) = []"
    by (simp_all add: proc0_def)
  have a: "sockfdp (snd (n_dhcp4_network_client_packet_socket_new LittleEndian
      kernel_bind_fails 2 0x12345678 proc0)) = sockfdp proc0 \<and>
    stores (trace (snd (n_dhcp4_network_client_packet_socket_new LittleEndian
      kernel_bind_fails 2 0x12345678 proc0))) = stores (trace proc0)"
    using sockfdp_written_on_success_only [of LittleEndian kernel_bind_fails 2 "0x12345678" proc0]
      ex by blast
  have b: "sockfdp (snd (n_dhcp4_network_client_packet_socket_new LittleEndian
      kernel_ok 2 0x12345678 proc0)) = retval (kernel_ok socket_call) \<and>
    stores (trace (snd (n_dhcp4_network_client_packet_socket_new LittleEndian
      kernel_ok 2 0x12345678 proc0))) = stores (trace proc0) @ [retval (kernel_ok socket_call)]"
    using sockfdp_written_on_success_only [of LittleEndian kernel_ok 2 "0x12345678" proc0]
      all by blast
  show ?thesis
    using a b f by (simp add: v fd)
qed

section \<open>\<^verbatim>\<open>parse_hexstr\<close>: lemmas and the claim\<close>

lemma hex_value_nibble: "hex_value c = nibble_spec c"
  by (cases c rule: char.exhaust; case_tac x1; case_tac x2; case_tac x3; case_tac x4;
      case_tac x5; case_tac x6; case_tac x7; case_tac x8;
      simp add: hex_value_def nibble_spec_def digit_table_spec_def)

lemma nibble_other: "c \<notin> set ''0123456789abcdefABCDEF'' \<Longrightarrow> nibble_spec c = 0"
  by (simp add: nibble_spec_def digit_table_spec_def)

lemma decode_pairs_append:
  "even (length xs) \<Longrightarrow>
   decode_pairs_spec (xs @ ys) = decode_pairs_spec xs @ decode_pairs_spec ys"
  by (induction xs rule: decode_pairs_spec.induct) simp_all

lemma length_decode_pairs: "length (decode_pairs_spec s) = (length s + 1) div 2"
  by (induction s rule: decode_pairs_spec.induct) simp_all


lemma take_Suc_update:
  "k < length xs \<Longrightarrow> take (Suc k) (xs[k := v]) = take k xs @ [v]"
  by (simp add: take_Suc_conv_app_nth)

lemma hex_step_even:
  assumes i: "i < length s" and ev: "even i"
    and len: "length outp = (length s + 1) div 2"
    and inv: "take ((i + 1) div 2) outp = decode_pairs_spec (take i s)"
  shows "take ((i + 1 + 1) div 2) (outp[i div 2 := nibble_spec (s ! i)]) =
    decode_pairs_spec (take (i + 1) s)"
proof -
  from ev obtain k where k: "i = 2 * k"
    by (elim evenE)
  have kl: "k < length outp"
    using i len k by simp
  have "take (Suc k) (outp[k := nibble_spec (s ! i)]) = take k outp @ [nibble_spec (s ! i)]"
    using kl by (rule take_Suc_update)
  moreover have "take k outp = decode_pairs_spec (take i s)"
    using inv k by simp
  moreover have "decode_pairs_spec (take (i + 1) s) =
      decode_pairs_spec (take i s) @ [nibble_spec (s ! i)]"
    using i ev by (simp add: take_Suc_conv_app_nth decode_pairs_append)
  ultimately show ?thesis
    using k by simp
qed

lemma hex_step_odd:
  assumes i: "i < length s" and od: "odd i"
    and len: "length outp = (length s + 1) div 2"
    and inv: "take ((i + 1) div 2) outp = decode_pairs_spec (take i s)"
  shows "take ((i + 1 + 1) div 2)
      (outp[i div 2 := push_bit 4 (outp ! (i div 2)) OR nibble_spec (s ! i)]) =
    decode_pairs_spec (take (i + 1) s)"
proof -
  from od obtain k where k: "i = 2 * k + 1"
    by (elim oddE)
  have kl: "k < length outp"
    using i len k by simp
  have t: "take i s = take (2 * k) s @ [s ! (2 * k)]"
    using i k by (simp add: take_Suc_conv_app_nth)
  have d: "decode_pairs_spec (take i s) =
      decode_pairs_spec (take (2 * k) s) @ [nibble_spec (s ! (2 * k))]"
    using i k unfolding t by (simp add: decode_pairs_append)
  have "take (Suc k) outp = take k outp @ [outp ! k]"
    using kl by (simp add: take_Suc_conv_app_nth)
  with inv k d have pre: "take k outp = decode_pairs_spec (take (2 * k) s)"
    and hi: "outp ! k = nibble_spec (s ! (2 * k))"
    by simp_all
  have "take (i + 1) s = take (2 * k) s @ [s ! (2 * k), s ! i]"
    using i k by (simp add: take_Suc_conv_app_nth)
  then have "decode_pairs_spec (take (i + 1) s) =
      decode_pairs_spec (take (2 * k) s) @
        [push_bit 4 (nibble_spec (s ! (2 * k))) OR nibble_spec (s ! i)]"
    using i k by (simp add: decode_pairs_append)
  moreover have "take (Suc k) (outp[k := push_bit 4 (outp ! k) OR nibble_spec (s ! i)]) =
      take k outp @ [push_bit 4 (outp ! k) OR nibble_spec (s ! i)]"
    using kl by (rule take_Suc_update)
  ultimately show ?thesis
    using k pre hi by simp
qed

lemma hex_loop_decodes:
  assumes "i \<le> length s" "length outp = (length s + 1) div 2"
    "take ((i + 1) div 2) outp = decode_pairs_spec (take i s)"
  shows "hex_loop s i outp = decode_pairs_spec s"
  using assms
proof (induction s i outp rule: hex_loop.induct)
  case (1 inp i outp)
  show ?case
  proof (cases "i < length inp")
    case False
    with "1.prems" have "i = length inp"
      by simp
    with "1.prems" show ?thesis
      by (subst hex_loop.simps) simp
  next
    case True
    define outp' where "outp' =
      (if i mod 2 \<noteq> 0
       then outp[i div 2 := push_bit 4 (outp ! (i div 2)) OR hex_value (inp ! i)]
       else outp[i div 2 := hex_value (inp ! i)])"
    have len': "length outp' = (length inp + 1) div 2"
      using "1.prems" by (simp add: outp'_def)
    have inv': "take ((i + 1 + 1) div 2) outp' = decode_pairs_spec (take (i + 1) inp)"
    proof (cases "even i")
      case True
      with hex_step_even [OF \<open>i < length inp\<close> True "1.prems"(2,3)] show ?thesis
        by (simp add: outp'_def hex_value_nibble even_iff_mod_2_eq_zero)
    next
      case False
      with hex_step_odd [OF \<open>i < length inp\<close> False "1.prems"(2,3)] show ?thesis
        by (simp add: outp'_def hex_value_nibble even_iff_mod_2_eq_zero)
    qed
    have "hex_loop inp i outp = hex_loop inp (i + 1) outp'"
      using True by (subst hex_loop.simps) (simp add: outp'_def Let_def)
    also have "\<dots> = decode_pairs_spec inp"
      unfolding outp'_def
      using True len' inv' by (intro "1.IH" [OF True refl]) (simp_all add: outp'_def)
    finally show ?thesis .
  qed
qed

lemma decode_pairs_nth_pair:
  "2 * k + 1 < length s \<Longrightarrow>
   decode_pairs_spec s ! k =
     push_bit 4 (nibble_spec (s ! (2 * k))) OR nibble_spec (s ! (2 * k + 1))"
proof (induction s arbitrary: k rule: decode_pairs_spec.induct)
  case (1 c1 c2 cs)
  then show ?case
    by (cases k) simp_all
qed simp_all

lemma decode_pairs_nth_single:
  "length s = 2 * k + 1 \<Longrightarrow> decode_pairs_spec s ! k = nibble_spec (s ! (2 * k))"
proof (induction s arbitrary: k rule: decode_pairs_spec.induct)
  case (1 c1 c2 cs)
  then show ?case
    by (cases k) simp_all
qed simp_all

text \<open>
  C10. When the allocation succeeds, \<^verbatim>\<open>parse_hexstr\<close> returns 0 and yields a buffer of
  \<open>(length s + 1) div 2\<close> bytes, whatever the buffer held before: byte \<open>k\<close> is made of the
  characters \<open>2k\<close> and \<open>2k + 1\<close> with the first in the high nibble, the last byte of an
  input of odd length is the value of the last character alone, a hexadecimal digit has
  its value and every other character the value 0.
\<close>

theorem parse_hexstr_decodes:
  "parse_hexstr (Some g) s = (0, Some (decode_pairs_spec s, (length s + 1) div 2)) \<and>
   length (decode_pairs_spec s) = (length s + 1) div 2 \<and>
   (2 * k + 1 < length s \<longrightarrow>
      decode_pairs_spec s ! k =
        push_bit 4 (hex_value (s ! (2 * k))) OR hex_value (s ! (2 * k + 1))) \<and>
   (length s = 2 * k + 1 \<longrightarrow> decode_pairs_spec s ! k = hex_value (s ! (2 * k))) \<and>
   hex_value c = nibble_spec c \<and>
   (c \<notin> set ''0123456789abcdefABCDEF'' \<longrightarrow> hex_value c = 0)"
proof -
  have "hex_loop s 0 (map g [0..<(length s + 1) div 2]) = decode_pairs_spec s"
    by (rule hex_loop_decodes) simp_all
  then have "parse_hexstr (Some g) s = (0, Some (decode_pairs_spec s, (length s + 1) div 2))"
    by (simp add: parse_hexstr_def Let_def)
  then show ?thesis
    by (simp add: length_decode_pairs decode_pairs_nth_pair decode_pairs_nth_single
        hex_value_nibble nibble_other)
qed

theorem parse_hexstr_decodes_witness:
  "parse_hexstr (Some (\<lambda>i. 0xee)) ''0aFg1'' = (0, Some ([0x0a, 0xf0, 0x01], 3)) \<and>
   hex_value CHR ''g'' = 0 \<and> hex_value CHR ''F'' = 15"
  using parse_hexstr_decodes [of "\<lambda>i. 0xee" "''0aFg1''" 2 "CHR ''g''"]
    parse_hexstr_decodes [of "\<lambda>i. 0xee" "''0aFg1''" 0 "CHR ''F''"]
  by (simp add: nibble_spec_def digit_table_spec_def)

end
